theory Spec2Isabelle
  imports Main
begin

section \<open>JavaScript values and the object store\<close>

text \<open>
  The analyser works on the object graph that the parser returns and that the decorator
  mutates in place: nodes point to their children, and the attributes stored under
  \<open>attr\<close> point back to parents and enclosing functions. Objects therefore live in a
  store, and a value is either a primitive or a reference into the store. Numbers are
  restricted to integers (source offsets, indices and counters are the only numbers the
  modelled code computes with).
\<close>

datatype val = VUndef | VNull | VBool bool | VNum int | VStr string | VRef nat

text \<open>
  Own enumerable properties are kept in insertion order, which is the order in which
  \<open>for (p in nd)\<close> enumerates them. An array is a cell of its own kind: its keys are
  the indices \<open>0 .. length - 1\<close>.
\<close>

datatype key = Name string | Idx nat

datatype cell = Obj "(string \<times> val) list" | Arr "val list"

type_synonym heap = "cell list"

datatype error = TypeError | OutOfFuel

fun truthy :: "val \<Rightarrow> bool" where
  "truthy VUndef = False"
| "truthy VNull = False"
| "truthy (VBool b) = b"
| "truthy (VNum n) = (n \<noteq> 0)"
| "truthy (VStr s) = (s \<noteq> [])"
| "truthy (VRef a) = True"

text \<open>\<open>nullish v\<close>: reading a property of \<open>v\<close> with \<open>v.p\<close> throws a TypeError.\<close>

fun nullish :: "val \<Rightarrow> bool" where
  "nullish VUndef = True"
| "nullish VNull = True"
| "nullish v = False"

text \<open>\<open>nd && typeof nd === 'object'\<close>\<close>

fun is_object :: "val \<Rightarrow> bool" where
  "is_object (VRef a) = True"
| "is_object v = False"

text \<open>
  Addresses are created by allocation only, so a reference always points into the
  store; outside the store \<open>cell_at\<close> answers with an object without properties.
\<close>

definition cell_at :: "heap \<Rightarrow> nat \<Rightarrow> cell" where
  "cell_at h a = (if a < length h then h ! a else Obj [])"

fun lookup :: "(string \<times> val) list \<Rightarrow> string \<Rightarrow> val" where
  "lookup [] p = VUndef"
| "lookup ((q, v) # ps) p = (if q = p then v else lookup ps p)"

fun cell_get :: "cell \<Rightarrow> key \<Rightarrow> val" where
  "cell_get (Obj ps) (Name p) = lookup ps p"
| "cell_get (Obj ps) (Idx i) = VUndef"
| "cell_get (Arr xs) (Idx i) = (if i < length xs then xs ! i else VUndef)"
| "cell_get (Arr xs) (Name p) = (if p = ''length'' then VNum (int (length xs)) else VUndef)"

text \<open>
  \<open>getk h v k\<close> is \<open>v?.[k]\<close>: undefined when \<open>v\<close> is null or undefined. A primitive
  has none of the properties the modelled code reads. The plain \<open>v.p\<close> of the source
  is \<open>getp h v p\<close> after a test \<open>nullish v\<close> that raises the TypeError.
\<close>

fun getk :: "heap \<Rightarrow> val \<Rightarrow> key \<Rightarrow> val" where
  "getk h (VRef a) k = cell_get (cell_at h a) k"
| "getk h v k = VUndef"

definition getp :: "heap \<Rightarrow> val \<Rightarrow> string \<Rightarrow> val" where
  "getp h v p = getk h v (Name p)"

fun assign :: "(string \<times> val) list \<Rightarrow> string \<Rightarrow> val \<Rightarrow> (string \<times> val) list" where
  "assign [] p x = [(p, x)]"
| "assign ((q, v) # ps) p x = (if q = p then (q, x) # ps else (q, v) # assign ps p x)"

fun cell_set :: "cell \<Rightarrow> string \<Rightarrow> val \<Rightarrow> cell" where
  "cell_set (Obj ps) p x = Obj (assign ps p x)"
| "cell_set (Arr xs) p x = Arr xs"

text \<open>
  \<open>setp h v p x\<close> is \<open>v.p = x\<close> for a non-nullish \<open>v\<close>; on a primitive the
  assignment is ignored (the modules are not in strict mode). Named properties on
  arrays are not modelled.
\<close>

fun setp :: "heap \<Rightarrow> val \<Rightarrow> string \<Rightarrow> val \<Rightarrow> heap" where
  "setp h (VRef a) p x = (if a < length h then h[a := cell_set (h ! a) p x] else h)"
| "setp h v p x = h"

fun cell_keys :: "cell \<Rightarrow> key list" where
  "cell_keys (Obj ps) = map (\<lambda>(p, v). Name p) ps"
| "cell_keys (Arr xs) = map Idx [0..<length xs]"

fun own_keys :: "heap \<Rightarrow> val \<Rightarrow> key list" where
  "own_keys h (VRef a) = cell_keys (cell_at h a)"
| "own_keys h v = []"

subsection \<open>Strings of numbers\<close>

definition digit_char :: "nat \<Rightarrow> char" where
  "digit_char d = ''0123456789'' ! d"

function string_of_nat :: "nat \<Rightarrow> string" where
  "string_of_nat n =
     (if n < 10 then [digit_char n] else string_of_nat (n div 10) @ [digit_char (n mod 10)])"
  by pat_completeness auto
termination
  by (relation "measure (\<lambda>n. n)") auto

declare string_of_nat.simps [simp del]

text \<open>The string a value takes inside a template literal.\<close>

fun to_str :: "val \<Rightarrow> string" where
  "to_str VUndef = ''undefined''"
| "to_str VNull = ''null''"
| "to_str (VBool b) = (if b then ''true'' else ''false'')"
| "to_str (VNum n) = (if n < 0 then CHR ''-'' # string_of_nat (nat (- n)) else string_of_nat (nat n))"
| "to_str (VStr s) = s"
| "to_str (VRef a) = ''[object Object]''"

fun key_val :: "key \<Rightarrow> val" where
  "key_val (Name p) = VStr p"
| "key_val (Idx i) = VStr (string_of_nat i)"

section \<open>The AST visitor\<close>

text \<open>
  \<^verbatim>\<open>
  function visit(root, visitor) {
      function doVisit(nd, parent, childProp) {
          if (!nd || typeof nd !== 'object') return;
          if (nd.type) {
              const res = visitor(nd, doVisit, parent, childProp);
              if (res === false) return;
          }
          for (const p in nd) {
              if (!nd.hasOwnProperty(p) || p.match(/^(range|loc|attr|comments|raw)$/))
                  continue;
              doVisit(nd[p], nd, p);
          }
      }
      doVisit(root);
  }
  \<close>
  The visitor is a closure over mutable variables and may change the nodes, so the
  traversal threads a world: the store and the visitor's own state. The visitor receives
  \<open>doVisit\<close> and may call it. The recursion follows references of the store and is
  bounded by its depth \<open>n\<close>; running out of depth is the error \<open>OutOfFuel\<close>.
\<close>

type_synonym 'x world = "heap \<times> 'x"

type_synonym 'x visitor =
  "(val \<Rightarrow> val \<Rightarrow> val \<Rightarrow> 'x world \<Rightarrow> error + 'x world) \<Rightarrow>
   val \<Rightarrow> val \<Rightarrow> val \<Rightarrow> 'x world \<Rightarrow> error + (val \<times> 'x world)"

definition magic :: "key \<Rightarrow> bool" where
  "magic k = (k \<in> {Name ''range'', Name ''loc'', Name ''attr'', Name ''comments'', Name ''raw''})"

fun forIn :: "(val \<Rightarrow> val \<Rightarrow> val \<Rightarrow> 'x world \<Rightarrow> error + 'x world) \<Rightarrow>
    val \<Rightarrow> key list \<Rightarrow> 'x world \<Rightarrow> error + 'x world" where
  "forIn d nd [] w = Inr w"
| "forIn d nd (p # ps) w =
     (if magic p then forIn d nd ps w
      else case d (getk (fst w) nd p) nd (key_val p) w of
             Inl e \<Rightarrow> Inl e
           | Inr w' \<Rightarrow> forIn d nd ps w')"

primrec doVisit :: "nat \<Rightarrow> 'x visitor \<Rightarrow> val \<Rightarrow> val \<Rightarrow> val \<Rightarrow> 'x world \<Rightarrow> error + 'x world" where
  "doVisit 0 visitor nd parent childProp w =
     (if \<not> is_object nd then Inr w else Inl OutOfFuel)"
| "doVisit (Suc n) visitor nd parent childProp w =
     (if \<not> is_object nd then Inr w
      else if truthy (getp (fst w) nd ''type'') then
        (case visitor (doVisit n visitor) nd parent childProp w of
           Inl e \<Rightarrow> Inl e
         | Inr (res, w') \<Rightarrow>
             if res = VBool False then Inr w'
             else forIn (doVisit n visitor) nd (own_keys (fst w') nd) w')
      else forIn (doVisit n visitor) nd (own_keys (fst w) nd) w)"

definition visit :: "nat \<Rightarrow> val \<Rightarrow> 'x visitor \<Rightarrow> 'x world \<Rightarrow> error + 'x world" where
  "visit n root visitor w = doVisit n visitor root VUndef VUndef w"

section \<open>The decorator\<close>

text \<open>
  The variables of \<open>init\<close> that its visitor closes over. The two registries
  \<open>root.attr.functions\<close> and \<open>root.attr.calls\<close> are arrays that only \<open>init\<close>
  appends to; they are kept here as lists of node references, in the order of the pushes.
  \<open>anonCounters\<close> is the \<open>Map\<close> from an enclosing function node, or the string
  \<open>'global'\<close>, to a counter. \<open>console\<close> collects the lines written by \<open>console.log\<close>.
\<close>

record init_state =
  enclosingFunction :: val
  enclosingFile :: val
  functions_list :: "val list"
  calls :: "val list"
  anonCounters :: "val \<rightharpoonup> nat"
  console :: "string list"

text \<open>
  \<^verbatim>\<open>
  function getNextAnonIndex(encFunc) {
      const key = encFunc || 'global';
      const current = anonCounters.get(key) || 0;
      const next = current + 1;
      anonCounters.set(key, next);
      return next;
  }
  \<close>
\<close>

definition counter_key :: "val \<Rightarrow> val" where
  "counter_key encFunc = (if truthy encFunc then encFunc else VStr ''global'')"

definition counter_of :: "(val \<rightharpoonup> nat) \<Rightarrow> val \<Rightarrow> nat" where
  "counter_of cs k = (case cs k of None \<Rightarrow> 0 | Some c \<Rightarrow> c)"

definition getNextAnonIndex :: "val \<Rightarrow> (val \<rightharpoonup> nat) \<Rightarrow> nat \<times> (val \<rightharpoonup> nat)" where
  "getNextAnonIndex encFunc cs =
     (let k = counter_key encFunc;
          current = counter_of cs k;
          next = current + 1
      in (next, cs(k \<mapsto> next)))"

definition node_type :: "heap \<Rightarrow> val \<Rightarrow> val" where
  "node_type h nd = getp h nd ''type''"

definition is_function_type :: "val \<Rightarrow> bool" where
  "is_function_type t =
     (t = VStr ''FunctionDeclaration'' \<or> t = VStr ''FunctionExpression'' \<or>
      t = VStr ''ArrowFunctionExpression'')"

text \<open>
  \<^verbatim>\<open>
  if (nd.type && !nd.attr) nd.attr = {};
  if (enclosingFunction) nd.attr.enclosingFunction = enclosingFunction;
  if (enclosingFile) nd.attr.enclosingFile = enclosingFile;
  if (nd.type === 'Program') enclosingFile = nd.attr.filename;
  \<close>
  The visitor is only called on a node whose \<open>type\<close> is truthy, so \<open>nd.attr\<close> is
  truthy after the first line.
\<close>

definition ensure_attr :: "val \<Rightarrow> heap \<Rightarrow> heap" where
  "ensure_attr nd h =
     (if truthy (node_type h nd) \<and> \<not> truthy (getp h nd ''attr'')
      then setp (h @ [Obj []]) nd ''attr'' (VRef (length h)) else h)"

definition set_attr :: "heap \<Rightarrow> val \<Rightarrow> string \<Rightarrow> val \<Rightarrow> heap" where
  "set_attr h nd p x = setp h (getp h nd ''attr'') p x"

definition get_attr :: "heap \<Rightarrow> val \<Rightarrow> string \<Rightarrow> val" where
  "get_attr h nd p = getp h (getp h nd ''attr'') p"

definition enter_node :: "val \<Rightarrow> init_state world \<Rightarrow> init_state world" where
  "enter_node nd w =
     (let (h, s) = w;
          h1 = ensure_attr nd h;
          h2 = (if truthy (enclosingFunction s)
                then set_attr h1 nd ''enclosingFunction'' (enclosingFunction s) else h1);
          h3 = (if truthy (enclosingFile s)
                then set_attr h2 nd ''enclosingFile'' (enclosingFile s) else h2);
          s1 = (if node_type h3 nd = VStr ''Program''
                then s\<lparr>enclosingFile := get_attr h3 nd ''filename''\<rparr> else s)
      in (h3, s1))"

text \<open>
  Method definition, case 1: a function expression that is the value of a property of an
  object literal.
  \<^verbatim>\<open>
  if (nd.type === 'FunctionExpression' && parent && parent.type === 'Property') {
      if (!parent.computed) {
          if (parent.key.type === 'Identifier') {
              nd.id = parent.key;
          } else if (parent.key.type === 'Literal') {
              nd.id = { type: 'Identifier', name: parent.key.value,
                        range: parent.key.range, loc: parent.key.loc };
          } else {
              console.log("WARNING: unexpected key type of 'Property'.");
          }
      } else
          console.log("WARNING: Computed property for method definition, not yet supported.");
  }
  \<close>
\<close>

definition log_line :: "string \<Rightarrow> init_state \<Rightarrow> init_state" where
  "log_line msg s = s\<lparr>console := console s @ [msg]\<rparr>"

definition name_property_value :: "val \<Rightarrow> val \<Rightarrow> init_state world \<Rightarrow> error + init_state world" where
  "name_property_value nd parent w =
     (let (h, s) = w in
      if node_type h nd = VStr ''FunctionExpression'' \<and> truthy parent \<and>
         node_type h parent = VStr ''Property''
      then
        if \<not> truthy (getp h parent ''computed'') then
          (let k = getp h parent ''key'' in
           if nullish k then Inl TypeError
           else if node_type h k = VStr ''Identifier'' then Inr (setp h nd ''id'' k, s)
           else if node_type h k = VStr ''Literal'' then
             Inr (setp (h @ [Obj [(''type'', VStr ''Identifier''),
                                  (''name'', getp h k ''value''),
                                  (''range'', getp h k ''range''),
                                  (''loc'', getp h k ''loc'')]])
                       nd ''id'' (VRef (length h)), s)
           else Inr (h, log_line ''WARNING: unexpected key type of 'Property'.'' s))
        else Inr (h, log_line
               ''WARNING: Computed property for method definition, not yet supported.'' s)
      else Inr w)"

text \<open>
  \<^verbatim>\<open>
  let willBeAnonymous = false;
  if (nd.id === null) {
      let hasParentName = false;
      if (parent?.type === 'AssignmentExpression') {
          if (parent?.left?.type == 'Identifier') hasParentName = true;
      } else if (parent?.type == 'VariableDeclarator') {
          if (parent?.id?.type == 'Identifier') hasParentName = true;
      }
      willBeAnonymous = !hasParentName;
  }
  \<close>
\<close>

definition hasParentName :: "heap \<Rightarrow> val \<Rightarrow> bool" where
  "hasParentName h parent =
     (if node_type h parent = VStr ''AssignmentExpression''
      then node_type h (getp h parent ''left'') = VStr ''Identifier''
      else if node_type h parent = VStr ''VariableDeclarator''
      then node_type h (getp h parent ''id'') = VStr ''Identifier''
      else False)"

definition willBeAnonymous :: "heap \<Rightarrow> val \<Rightarrow> val \<Rightarrow> bool" where
  "willBeAnonymous h nd parent =
     (if getp h nd ''id'' = VNull then \<not> hasParentName h parent else False)"

text \<open>
  \<^verbatim>\<open>
  root.attr.functions.push(nd);
  nd.attr.parent = parent;
  nd.attr.childProp = childProp;
  ...
  if (willBeAnonymous) nd.attr.anonIndex = getNextAnonIndex(enclosingFunction);
  \<close>
\<close>

definition register_function :: "val \<Rightarrow> val \<Rightarrow> val \<Rightarrow> init_state world \<Rightarrow> init_state world" where
  "register_function nd parent childProp w =
     (let (h, s) = w;
          s1 = s\<lparr>functions_list := functions_list s @ [nd]\<rparr>;
          h1 = set_attr h nd ''parent'' parent;
          h2 = set_attr h1 nd ''childProp'' childProp
      in if willBeAnonymous h2 nd parent
         then (let (i, cs) = getNextAnonIndex (enclosingFunction s1) (anonCounters s1)
               in (set_attr h2 nd ''anonIndex'' (VNum (int i)), s1\<lparr>anonCounters := cs\<rparr>))
         else (h2, s1))"

text \<open>
  \<^verbatim>\<open>
  const old_enclosingFunction = enclosingFunction;
  enclosingFunction = nd;
  doVisit(nd.id);
  doVisit(nd.params);
  doVisit(nd.body);
  enclosingFunction = old_enclosingFunction;
  return false;
  \<close>
\<close>

definition visit_function_parts ::
  "(val \<Rightarrow> val \<Rightarrow> val \<Rightarrow> init_state world \<Rightarrow> error + init_state world) \<Rightarrow>
   val \<Rightarrow> init_state world \<Rightarrow> error + (val \<times> init_state world)" where
  "visit_function_parts d nd w =
     (let (h, s) = w;
          old_enclosingFunction = enclosingFunction s
      in case d (getp h nd ''id'') VUndef VUndef (h, s\<lparr>enclosingFunction := nd\<rparr>) of
           Inl e \<Rightarrow> Inl e
         | Inr w1 \<Rightarrow>
        (case d (getp (fst w1) nd ''params'') VUndef VUndef w1 of
           Inl e \<Rightarrow> Inl e
         | Inr w2 \<Rightarrow>
        (case d (getp (fst w2) nd ''body'') VUndef VUndef w2 of
           Inl e \<Rightarrow> Inl e
         | Inr (h3, s3) \<Rightarrow>
             Inr (VBool False, (h3, s3\<lparr>enclosingFunction := old_enclosingFunction\<rparr>)))))"

text \<open>
  Method definition, case 2: a method of a class body.
  \<^verbatim>\<open>
  if (nd.type === 'MethodDefinition')
      if (!nd.computed) {
          if (nd.key.type === 'Identifier') {
              nd.value.id = nd.key;
          } else if (nd.key.type === 'Literal') {
              console.log("WARNING: invalid syntax, method name is of type Literal instead of Identifier.");
          } else {
              console.log("WARNING: unexpected key type of 'MethodDefinition'.");
          }
      } else {
          console.log("WARNING: Computed property for method definition, not yet supported.");
      }
  \<close>
\<close>

definition name_method_definition :: "val \<Rightarrow> init_state world \<Rightarrow> error + init_state world" where
  "name_method_definition nd w =
     (let (h, s) = w in
      if node_type h nd = VStr ''MethodDefinition'' then
        if \<not> truthy (getp h nd ''computed'') then
          (let k = getp h nd ''key'' in
           if nullish k then Inl TypeError
           else if node_type h k = VStr ''Identifier'' then
             (if nullish (getp h nd ''value'') then Inl TypeError
              else Inr (setp h (getp h nd ''value'') ''id'' k, s))
           else if node_type h k = VStr ''Literal'' then
             Inr (h, log_line
               ''WARNING: invalid syntax, method name is of type Literal instead of Identifier.'' s)
           else Inr (h, log_line ''WARNING: unexpected key type of 'MethodDefinition'.'' s))
        else Inr (h, log_line
               ''WARNING: Computed property for method definition, not yet supported.'' s)
      else Inr w)"

text \<open>
  \<^verbatim>\<open>
  if (nd.type === 'CallExpression' || nd.type === 'NewExpression')
      root.attr.calls.push(nd);
  \<close>
\<close>

definition register_call :: "val \<Rightarrow> init_state world \<Rightarrow> init_state world" where
  "register_call nd w =
     (let (h, s) = w in
      if node_type h nd = VStr ''CallExpression'' \<or> node_type h nd = VStr ''NewExpression''
      then (h, s\<lparr>calls := calls s @ [nd]\<rparr>) else w)"

text \<open>The callback that \<open>init\<close> passes to \<open>visit\<close>: the blocks above, in this order.\<close>

definition init_visitor :: "init_state visitor" where
  "init_visitor d nd parent childProp w =
     (case name_property_value nd parent (enter_node nd w) of
        Inl e \<Rightarrow> Inl e
      | Inr w1 \<Rightarrow>
          if is_function_type (node_type (fst w1) nd)
          then visit_function_parts d nd (register_function nd parent childProp w1)
          else (case name_method_definition nd w1 of
                  Inl e \<Rightarrow> Inl e
                | Inr w2 \<Rightarrow> Inr (VUndef, register_call nd w2)))"

text \<open>
  \<^verbatim>\<open>
  function init(root) {
      let enclosingFunction = null;
      let enclosingFile = null;
      root.attr.functions = [];
      root.attr.calls = [];
      const anonCounters = new Map();
      ...
      visit(root, function (nd, doVisit, parent, childProp) { ... });
  }
  \<close>
\<close>

definition init_state0 :: init_state where
  "init_state0 = \<lparr>enclosingFunction = VNull, enclosingFile = VNull, functions_list = [],
     calls = [], anonCounters = Map.empty, console = []\<rparr>"

definition init :: "nat \<Rightarrow> val \<Rightarrow> heap \<Rightarrow> error + init_state world" where
  "init n root h =
     (if nullish root \<or> nullish (getp h root ''attr'') then Inl TypeError
      else visit n root init_visitor (h, init_state0))"

section \<open>Labels of functions\<close>

text \<open>
  \<^verbatim>\<open>
  function funcname(func) {
      if (func === undefined) {
          console.log('WARNING: func undefined in astutil/funcname.');
      } else if (func.id === null) {
          const parent = func?.attr?.parent;
          if (parent?.type === 'AssignmentExpression') {
              if( parent?.left?.type == 'Identifier') return parent.left.name;
          } else if (parent?.type == 'VariableDeclarator') {
              if( parent?.id?.type == 'Identifier') return parent.id.name;
          }
          if (func.attr && typeof func.attr.anonIndex === 'number') {
              const encFunc = func.attr.enclosingFunction;
              const parentName = encFuncName(encFunc);
              return `${parentName}:anon[${func.attr.anonIndex}]`;
          }
          return "anon"; // fallback
      }
      return func.id.name;
  }

  function encFuncName(encFunc) {
      if (encFunc === undefined) return "global";
      return funcname(encFunc);
  }
  \<close>
  The two functions call each other along the \<open>enclosingFunction\<close> attributes; the
  number \<open>n\<close> bounds the length of that chain. After the warning for an undefined
  argument the function goes on to \<open>func.id.name\<close>, which throws, as \<open>func.id\<close>
  does for \<open>null\<close>.
\<close>

fun is_num :: "val \<Rightarrow> bool" where
  "is_num (VNum i) = True"
| "is_num v = False"

definition anon_label :: "val \<Rightarrow> val \<Rightarrow> val" where
  "anon_label parentName idx = VStr (to_str parentName @ '':anon['' @ to_str idx @ '']'')"

definition parent_name :: "heap \<Rightarrow> val \<Rightarrow> val option" where
  "parent_name h parent =
     (if node_type h parent = VStr ''AssignmentExpression''
      then (if node_type h (getp h parent ''left'') = VStr ''Identifier''
            then Some (getp h (getp h parent ''left'') ''name'') else None)
      else if node_type h parent = VStr ''VariableDeclarator''
      then (if node_type h (getp h parent ''id'') = VStr ''Identifier''
            then Some (getp h (getp h parent ''id'') ''name'') else None)
      else None)"

primrec funcname :: "nat \<Rightarrow> heap \<Rightarrow> val \<Rightarrow> error + val" where
  "funcname 0 h func = Inl OutOfFuel"
| "funcname (Suc n) h func =
     (if nullish func then Inl TypeError
      else if getp h func ''id'' = VNull then
        (case parent_name h (get_attr h func ''parent'') of
           Some x \<Rightarrow> Inr x
         | None \<Rightarrow>
             if truthy (getp h func ''attr'') \<and> is_num (get_attr h func ''anonIndex'')
             then (let encFunc = get_attr h func ''enclosingFunction'' in
                   case (if encFunc = VUndef then Inr (VStr ''global'')
                         else funcname n h encFunc) of
                     Inl e \<Rightarrow> Inl e
                   | Inr parentName \<Rightarrow>
                       Inr (anon_label parentName (get_attr h func ''anonIndex'')))
             else Inr (VStr ''anon''))
      else if nullish (getp h func ''id'') then Inl TypeError
      else Inr (getp h (getp h func ''id'') ''name''))"

definition encFuncName :: "nat \<Rightarrow> heap \<Rightarrow> val \<Rightarrow> error + val" where
  "encFuncName n h encFunc =
     (if encFunc = VUndef then Inr (VStr ''global'') else funcname n h encFunc)"

section \<open>The flow graph\<close>

text \<open>
  Modelled from the spec: the module \<open>flowgraph.js\<close> (the vertex constructors
  \<open>nativeVertex\<close>, \<open>propVertex\<close>, \<open>funcVertex\<close>, \<open>calleeVertex\<close>, \<open>retVertex\<close> and the
  method \<open>addEdge\<close>) is not among the sources. The specification gives the vertex
  variants with their identity: Var(decl), Glob(name), Prop(name), Func(fn), Callee(call),
  Arg(call, i), Res(call), Ret(fn), Expr(node), Native(name), Unknown; a vertex is
  determined by these fields, and the flow graph is a directed multigraph over the
  vertices. The constructor names with the suffix \<open>Vertex\<close> are the type tags that
  \<open>runner.js\<close> tests (\<open>'CalleeVertex'\<close> with the field \<open>call\<close>, \<open>'FuncVertex'\<close> with
  \<open>func\<close>, \<open>'NativeVertex'\<close> with \<open>name\<close>).
\<close>

datatype vertex =
    VarVertex val
  | GlobVertex string
  | PropVertex string
  | FuncVertex val
  | CalleeVertex val
  | ArgVertex val nat
  | ResVertex val
  | RetVertex val
  | ExprVertex val
  | NativeVertex string
  | UnknownVertex

type_synonym flow_graph = "(vertex \<times> vertex) list"

definition addEdge :: "vertex \<Rightarrow> vertex \<Rightarrow> flow_graph \<Rightarrow> flow_graph" where
  "addEdge from to g = g @ [(from, to)]"

section \<open>Native flows and the Step combinator\<close>

text \<open>
  \<^verbatim>\<open>
  function addNativeFlowEdges(flow_graph) {
      for (const native in nativeFlows) {
          if (!nativeFlows.hasOwnProperty(native)) continue;
          const target = nativeFlows[native];
          flow_graph.addEdge(
              flowgraph.nativeVertex(native),
              flowgraph.propVertex({ type: 'Identifier', name: target }));
      }
      return flow_graph;
  }
  \<close>
  The table \<open>nativeFlows\<close> of \<open>harness.js\<close> is a parameter: its own properties in
  enumeration order, each a native's name with its target.
\<close>

fun addNativeFlowEdges :: "(string \<times> string) list \<Rightarrow> flow_graph \<Rightarrow> flow_graph" where
  "addNativeFlowEdges [] flow_graph = flow_graph"
| "addNativeFlowEdges ((native, target) # nativeFlows) flow_graph =
     addNativeFlowEdges nativeFlows
       (addEdge (NativeVertex native) (PropVertex target) flow_graph)"

text \<open>
  \<^verbatim>\<open>
  function isStepCall(call) {
      return call.type === 'CallExpression' &&
             call.callee.type === 'Identifier' &&
             call.callee.name === 'Step';
  }
  \<close>
\<close>

definition isStepCall :: "heap \<Rightarrow> val \<Rightarrow> error + bool" where
  "isStepCall h call =
     (if nullish call then Inl TypeError
      else if node_type h call \<noteq> VStr ''CallExpression'' then Inr False
      else if nullish (getp h call ''callee'') then Inl TypeError
      else Inr (node_type h (getp h call ''callee'') = VStr ''Identifier'' \<and>
                getp h (getp h call ''callee'') ''name'' = VStr ''Step''))"

text \<open>
  What \<open>handleStepCall\<close> takes from modules that are not among the sources:
  \<open>flowgraph.vertexFor\<close> for an identifier, and the method \<open>get\<close> of the scope object
  that the binder stores in \<open>attr.scope\<close>.
\<close>

record step_env =
  vertexFor :: "heap \<Rightarrow> val \<Rightarrow> vertex"
  scope_get :: "heap \<Rightarrow> val \<Rightarrow> val \<Rightarrow> val"

definition elements :: "heap \<Rightarrow> val \<Rightarrow> val list option" where
  "elements h v =
     (case v of
        VRef a \<Rightarrow> (case cell_at h a of Arr xs \<Rightarrow> Some xs | Obj ps \<Rightarrow> None)
      | _ \<Rightarrow> None)"

text \<open>
  \<^verbatim>\<open>
  const steps = call.arguments.filter(arg =>
      arg.type === 'FunctionExpression' ||
      arg.type === 'ArrowFunctionExpression' ||
      arg.type === 'Identifier');
  \<close>
\<close>

definition is_step :: "heap \<Rightarrow> val \<Rightarrow> bool" where
  "is_step h arg =
     (node_type h arg = VStr ''FunctionExpression'' \<or>
      node_type h arg = VStr ''ArrowFunctionExpression'' \<or>
      node_type h arg = VStr ''Identifier'')"

fun filter_steps :: "heap \<Rightarrow> val list \<Rightarrow> error + val list" where
  "filter_steps h [] = Inr []"
| "filter_steps h (arg # args) =
     (if nullish arg then Inl TypeError
      else case filter_steps h args of
             Inl e \<Rightarrow> Inl e
           | Inr steps \<Rightarrow> Inr (if is_step h arg then arg # steps else steps))"

text \<open>
  \<^verbatim>\<open>
  function resolveFunctionNode(step) {
      if (step.type === 'Identifier' && step.attr && step.attr.scope) {
          const declId = step.attr.scope.get(step.name);
          if (declId && declId.name === step.name) {
              if (ast.attr && ast.attr.functions) {
                  for (let i = 0; i < ast.attr.functions.length; i++) {
                      const func = ast.attr.functions[i];
                      if (func.id === declId) return func;
                      if (!func.id && func.attr && func.attr.enclosingFunction === undefined) {
                          const fname = astutil.funcname(func);
                          if (fname === step.name) return func;
                      }
                  }
              }
          }
      }
      return step;
  }
  \<close>
  The registry \<open>ast.attr.functions\<close> is the list that \<open>init\<close> built. Under the guard
  \<open>func.attr.enclosingFunction === undefined\<close> the call of \<open>funcname\<close> does not go on to
  an enclosing function, so depth 1 is all it needs.
\<close>

fun find_function :: "heap \<Rightarrow> val \<Rightarrow> val \<Rightarrow> val list \<Rightarrow> error + val option" where
  "find_function h declId name [] = Inr None"
| "find_function h declId name (func # fs) =
     (if nullish func then Inl TypeError
      else if getp h func ''id'' = declId then Inr (Some func)
      else if \<not> truthy (getp h func ''id'') \<and> truthy (getp h func ''attr'') \<and>
              get_attr h func ''enclosingFunction'' = VUndef
      then (case funcname 1 h func of
              Inl e \<Rightarrow> Inl e
            | Inr fname \<Rightarrow>
                if fname = name then Inr (Some func) else find_function h declId name fs)
      else find_function h declId name fs)"

definition resolveFunctionNode :: "step_env \<Rightarrow> val list \<Rightarrow> heap \<Rightarrow> val \<Rightarrow> error + val" where
  "resolveFunctionNode env fl h step =
     (if node_type h step = VStr ''Identifier'' \<and> truthy (getp h step ''attr'') \<and>
         truthy (get_attr h step ''scope'')
      then
        (let declId = scope_get env h (get_attr h step ''scope'') (getp h step ''name'') in
         if truthy declId \<and> getp h declId ''name'' = getp h step ''name''
         then (case find_function h declId (getp h step ''name'') fl of
                 Inl e \<Rightarrow> Inl e
               | Inr (Some func) \<Rightarrow> Inr func
               | Inr None \<Rightarrow> Inr step)
         else Inr step)
      else Inr step)"

definition step_vertex :: "step_env \<Rightarrow> heap \<Rightarrow> val \<Rightarrow> vertex" where
  "step_vertex env h step =
     (if node_type h step = VStr ''Identifier'' then vertexFor env h step else FuncVertex step)"

definition alloc :: "cell \<Rightarrow> heap \<Rightarrow> val \<times> heap" where
  "alloc c h = (VRef (length h), h @ [c])"

text \<open>
  \<^verbatim>\<open>
  const currentStepLoc = currentStep.loc ||
      { start: { line: 0, column: 0 }, end: { line: 0, column: 0 } };
  const currentStepRange = currentStep.range || [0, 0];
  \<close>
\<close>

definition step_loc :: "val \<Rightarrow> heap \<Rightarrow> val \<times> heap" where
  "step_loc currentStep h =
     (if truthy (getp h currentStep ''loc'') then (getp h currentStep ''loc'', h)
      else (let (st, h1) = alloc (Obj [(''line'', VNum 0), (''column'', VNum 0)]) h;
                (en, h2) = alloc (Obj [(''line'', VNum 0), (''column'', VNum 0)]) h1
            in alloc (Obj [(''start'', st), (''end'', en)]) h2))"

definition step_range :: "val \<Rightarrow> heap \<Rightarrow> val \<times> heap" where
  "step_range currentStep h =
     (if truthy (getp h currentStep ''range'') then (getp h currentStep ''range'', h)
      else alloc (Arr [VNum 0, VNum 0]) h)"

text \<open>
  \<^verbatim>\<open>
  const pseudoCall = {
      type: 'CallExpression', callee: nextStep, arguments: [],
      loc: currentStepLoc, range: currentStepRange,
      attr: { synthetic: true, enclosingFunction: currentStepFunc,
              enclosingFile: call.attr.enclosingFile }
  };
  \<close>
\<close>

definition new_pseudoCall ::
  "val \<Rightarrow> val \<Rightarrow> val \<Rightarrow> val \<Rightarrow> val \<Rightarrow> heap \<Rightarrow> val \<times> heap" where
  "new_pseudoCall nextStep currentStepLoc currentStepRange currentStepFunc enclFile h =
     (let (args, h1) = alloc (Arr []) h;
          (attr, h2) = alloc (Obj [(''synthetic'', VBool True),
                                   (''enclosingFunction'', currentStepFunc),
                                   (''enclosingFile'', enclFile)]) h1
      in alloc (Obj [(''type'', VStr ''CallExpression''), (''callee'', nextStep),
                     (''arguments'', args), (''loc'', currentStepLoc),
                     (''range'', currentStepRange), (''attr'', attr)]) h2)"

text \<open>
  One round of the loop of \<open>handleStepCall\<close>, for the steps \<open>steps[i]\<close> and
  \<open>steps[i + 1]\<close>:
  \<^verbatim>\<open>
  const currentStepFunc = resolveFunctionNode(currentStep);
  ... pseudoCall ...
  const nextStepVertex = (nextStep.type === 'Identifier')
      ? flowgraph.vertexFor(nextStep) : flowgraph.funcVertex(nextStep);
  const currentStepFuncNode = resolveFunctionNode(currentStep);
  flow_graph.addEdge(nextStepVertex, flowgraph.calleeVertex(pseudoCall));
  flow_graph.addEdge(flowgraph.retVertex(currentStepFuncNode),
                     flowgraph.calleeVertex(pseudoCall));
  \<close>
  The vertex \<open>currentStepFuncVertex\<close> that the source also computes is not used.
\<close>

definition link_pair ::
  "step_env \<Rightarrow> val list \<Rightarrow> val \<Rightarrow> val \<Rightarrow> val \<Rightarrow> heap \<times> flow_graph \<Rightarrow> error + heap \<times> flow_graph" where
  "link_pair env fl call currentStep nextStep w =
     (let (h, g) = w in
      case resolveFunctionNode env fl h currentStep of
        Inl e \<Rightarrow> Inl e
      | Inr currentStepFunc \<Rightarrow>
          (let (currentStepLoc, h1) = step_loc currentStep h;
               (currentStepRange, h2) = step_range currentStep h1
           in if nullish (getp h2 call ''attr'') then Inl TypeError
              else
                (let (pseudoCall, h3) =
                       new_pseudoCall nextStep currentStepLoc currentStepRange currentStepFunc
                         (get_attr h2 call ''enclosingFile'') h2;
                     nextStepVertex = step_vertex env h3 nextStep
                 in case resolveFunctionNode env fl h3 currentStep of
                      Inl e \<Rightarrow> Inl e
                    | Inr currentStepFuncNode \<Rightarrow>
                        Inr (h3, addEdge (RetVertex currentStepFuncNode) (CalleeVertex pseudoCall)
                                   (addEdge nextStepVertex (CalleeVertex pseudoCall) g)))))"

fun link_steps ::
  "step_env \<Rightarrow> val list \<Rightarrow> val \<Rightarrow> val list \<Rightarrow> heap \<times> flow_graph \<Rightarrow> error + heap \<times> flow_graph" where
  "link_steps env fl call (currentStep # nextStep # steps) w =
     (case link_pair env fl call currentStep nextStep w of
        Inl e \<Rightarrow> Inl e
      | Inr w' \<Rightarrow> link_steps env fl call (nextStep # steps) w')"
| "link_steps env fl call steps w = Inr w"

text \<open>
  \<^verbatim>\<open>
  function handleStepCall(call, flow_graph, ast) {
      const steps = call.arguments.filter(...);
      if (steps.length === 0) return;
      const firstStep = steps[0];
      const firstStepVertex = (firstStep.type === 'Identifier')
          ? flowgraph.vertexFor(firstStep) : flowgraph.funcVertex(firstStep);
      flow_graph.addEdge(firstStepVertex, flowgraph.calleeVertex(call));
      for (let i = 0; i < steps.length - 1; i++) { ... }
  }
  \<close>
\<close>

definition handleStepCall ::
  "step_env \<Rightarrow> val list \<Rightarrow> val \<Rightarrow> heap \<times> flow_graph \<Rightarrow> error + heap \<times> flow_graph" where
  "handleStepCall env fl call w =
     (let (h, g) = w in
      case elements h (getp h call ''arguments'') of
        None \<Rightarrow> Inl TypeError
      | Some args \<Rightarrow>
          (case filter_steps h args of
             Inl e \<Rightarrow> Inl e
           | Inr [] \<Rightarrow> Inr w
           | Inr (firstStep # steps) \<Rightarrow>
               link_steps env fl call (firstStep # steps)
                 (h, addEdge (step_vertex env h firstStep) (CalleeVertex call) g)))"

text \<open>
  \<^verbatim>\<open>
  function addStepFlowEdges(ast, flow_graph) {
      astutil.visit(ast, function(nd) {
          if (isStepCall(nd)) handleStepCall(nd, flow_graph, ast);
      });
      return flow_graph;
  }
  \<close>
\<close>

definition step_visitor :: "step_env \<Rightarrow> val list \<Rightarrow> flow_graph visitor" where
  "step_visitor env fl d nd parent childProp w =
     (case isStepCall (fst w) nd of
        Inl e \<Rightarrow> Inl e
      | Inr True \<Rightarrow>
          (case handleStepCall env fl nd w of Inl e \<Rightarrow> Inl e | Inr w' \<Rightarrow> Inr (VUndef, w'))
      | Inr False \<Rightarrow> Inr (VUndef, w))"

definition addStepFlowEdges ::
  "nat \<Rightarrow> step_env \<Rightarrow> val list \<Rightarrow> val \<Rightarrow> heap \<times> flow_graph \<Rightarrow> error + heap \<times> flow_graph" where
  "addStepFlowEdges n env fl ast w = visit n ast (step_visitor env fl) w"

section \<open>Extraction of the called functions\<close>

text \<open>
  The call graph \<open>cg\<close> comes from modules that are not among the sources; what the
  extraction functions use of it is \<open>cg.edges.iter\<close>, which calls its argument on every
  edge. The edges are a parameter: the list of pairs (call-site vertex, target vertex) in
  the order of the iteration. A vertex has the field \<open>call\<close> or \<open>func\<close> according to
  its type tag; the other field is undefined.
\<close>

fun vertex_call :: "vertex \<Rightarrow> val" where
  "vertex_call (CalleeVertex c) = c"
| "vertex_call v = VUndef"

fun vertex_func :: "vertex \<Rightarrow> val" where
  "vertex_func (FuncVertex f) = f"
| "vertex_func v = VUndef"

fun is_native :: "vertex \<Rightarrow> bool" where
  "is_native (NativeVertex n) = True"
| "is_native v = False"

text \<open>
  An entry of the result is \<open>{caller: {file, range}, callee: {file, range}}\<close>. The store
  does not change during the extraction, so a range is kept by its two elements;
  \<open>None\<close> stands for a \<open>range\<close> that is null or undefined, whose elements cannot be read.
\<close>

record endpoint =
  ep_file :: val
  ep_range :: "(val \<times> val) option"

record entry =
  caller :: endpoint
  callee :: endpoint

definition read_range :: "heap \<Rightarrow> val \<Rightarrow> (val \<times> val) option" where
  "read_range h r = (if nullish r then None else Some (getk h r (Idx 0), getk h r (Idx 1)))"

text \<open>
  The comparison \<open>==\<close> on the values that occur here: file names (strings or undefined)
  and range elements (numbers, null or undefined). No conversion between numbers and
  strings arises between them.
\<close>

definition loose_eq :: "val \<Rightarrow> val \<Rightarrow> bool" where
  "loose_eq a b = (a = b \<or> (nullish a \<and> nullish b))"

text \<open>
  \<^verbatim>\<open>
  function equals(a) {
      return a.caller.file == caller.file &&
             a.caller.range[0] == caller.range[0] && a.caller.range[1] == caller.range[1] &&
             a.callee.file == callee.file &&
             a.callee.range[0] == callee.range[0] && a.callee.range[1] == callee.range[1];
  }
  \<close>
\<close>

definition endpoint_equals :: "endpoint \<Rightarrow> endpoint \<Rightarrow> error + bool" where
  "endpoint_equals a b =
     (if \<not> loose_eq (ep_file a) (ep_file b) then Inr False
      else case (ep_range a, ep_range b) of
             (Some (a0, a1), Some (b0, b1)) \<Rightarrow> Inr (loose_eq a0 b0 \<and> loose_eq a1 b1)
           | _ \<Rightarrow> Inl TypeError)"

definition equals :: "entry \<Rightarrow> entry \<Rightarrow> error + bool" where
  "equals new a =
     (case endpoint_equals (caller a) (caller new) of
        Inl e \<Rightarrow> Inl e
      | Inr False \<Rightarrow> Inr False
      | Inr True \<Rightarrow> endpoint_equals (callee a) (callee new))"

text \<open>\<open>xs.some(equals)\<close>\<close>

fun some_equals :: "entry \<Rightarrow> entry list \<Rightarrow> error + bool" where
  "some_equals new [] = Inr False"
| "some_equals new (a # as) =
     (case equals new a of
        Inl e \<Rightarrow> Inl e
      | Inr True \<Rightarrow> Inr True
      | Inr False \<Rightarrow> some_equals new as)"

text \<open>
  \<^verbatim>\<open>
  if (!functions_called.some(equals))
      functions_called.push({ caller: caller, callee: callee });
  \<close>
\<close>

definition add_entry :: "entry \<Rightarrow> entry list \<Rightarrow> error + entry list" where
  "add_entry new functions_called =
     (case some_equals new functions_called of
        Inl e \<Rightarrow> Inl e
      | Inr True \<Rightarrow> Inr functions_called
      | Inr False \<Rightarrow> Inr (functions_called @ [new]))"

subsection \<open>The projection \<open>static\<close>\<close>

text \<open>
  \<^verbatim>\<open>
  cg.edges.iter(function(caller, callee) {
      if (callee.type == 'NativeVertex') return;
      let file = callee.func.attr.enclosingFile;
      let start = callee.func.range[0];
      let end = callee.func.range[1];
      let caller_start, caller_end,
          caller_file = caller.call.attr.enclosingFile;
      let enclosing_function = caller.call.callee.attr.enclosingFunction;
      if (enclosing_function) {
          caller_start = enclosing_function.range[0];
          caller_end = enclosing_function.range[1];
      } else {
          caller_start = caller_end = null;
      }
      ...
      if (!calledFunctions.some(equals)) {
          let caller = { file: caller_file, range: [caller_start, caller_end] };
          let callee = { file: file, range: [start, end] };
          calledFunctions.push({ caller: caller, callee: callee });
      }
  });
  \<close>
\<close>

definition static_callee :: "heap \<Rightarrow> vertex \<Rightarrow> error + endpoint" where
  "static_callee h callee_v =
     (let func = vertex_func callee_v in
      if nullish func \<or> nullish (getp h func ''attr'') \<or> nullish (getp h func ''range'')
      then Inl TypeError
      else Inr \<lparr>ep_file = get_attr h func ''enclosingFile'',
                ep_range = read_range h (getp h func ''range'')\<rparr>)"

definition static_caller :: "heap \<Rightarrow> vertex \<Rightarrow> error + endpoint" where
  "static_caller h caller_v =
     (let call = vertex_call caller_v in
      if nullish call \<or> nullish (getp h call ''attr'') \<or> nullish (getp h call ''callee'') \<or>
         nullish (getp h (getp h call ''callee'') ''attr'')
      then Inl TypeError
      else
        (let caller_file = get_attr h call ''enclosingFile'';
             enclosing_function = get_attr h (getp h call ''callee'') ''enclosingFunction''
         in if truthy enclosing_function
            then (if nullish (getp h enclosing_function ''range'') then Inl TypeError
                  else Inr \<lparr>ep_file = caller_file,
                            ep_range = read_range h (getp h enclosing_function ''range'')\<rparr>)
            else Inr \<lparr>ep_file = caller_file, ep_range = Some (VNull, VNull)\<rparr>))"

definition static_edge :: "heap \<Rightarrow> vertex \<times> vertex \<Rightarrow> entry list \<Rightarrow> error + entry list" where
  "static_edge h e calledFunctions =
     (let (caller_v, callee_v) = e in
      if is_native callee_v then Inr calledFunctions
      else case static_callee h callee_v of
             Inl err \<Rightarrow> Inl err
           | Inr ce \<Rightarrow>
               (case static_caller h caller_v of
                  Inl err \<Rightarrow> Inl err
                | Inr cr \<Rightarrow> add_entry \<lparr>caller = cr, callee = ce\<rparr> calledFunctions))"

fun iter_edges :: "('e \<Rightarrow> 'a \<Rightarrow> error + 'a) \<Rightarrow> 'e list \<Rightarrow> 'a \<Rightarrow> error + 'a" where
  "iter_edges f [] acc = Inr acc"
| "iter_edges f (e # es) acc =
     (case f e acc of Inl err \<Rightarrow> Inl err | Inr acc' \<Rightarrow> iter_edges f es acc')"

definition retrieveAllCalledFunctionsStatic :: "heap \<Rightarrow> (vertex \<times> vertex) list \<Rightarrow> error + entry list" where
  "retrieveAllCalledFunctionsStatic h edges = iter_edges (static_edge h) edges []"

subsection \<open>The projection \<open>nativecalls\<close>\<close>

text \<open>
  \<^verbatim>\<open>
  function handle_function_argument(caller_node, func) {
      let caller = {file: null, range: [null, null]},
          called = {file: null, range: [null, null]};
      called.range = func.range;
      called.file = func.attr.enclosingFile;
      let enclosing_function = caller_node.call.attr.enclosingFunction;
      if (enclosing_function) {
          caller.file = enclosing_function.attr.enclosingFile;
          caller.range = enclosing_function.range;
      } else {
          caller.file = caller_node.call.attr.enclosingFile;
      }
      add_entry(caller, called);
  }
  \<close>
\<close>

definition native_entry :: "heap \<Rightarrow> val \<Rightarrow> val \<Rightarrow> error + entry" where
  "native_entry h call func =
     (if nullish (getp h func ''attr'') \<or> nullish (getp h call ''attr'') then Inl TypeError
      else
        (let called = \<lparr>ep_file = get_attr h func ''enclosingFile'',
                       ep_range = read_range h (getp h func ''range'')\<rparr>;
             enclosing_function = get_attr h call ''enclosingFunction''
         in if truthy enclosing_function
            then (if nullish (getp h enclosing_function ''attr'') then Inl TypeError
                  else Inr \<lparr>caller = \<lparr>ep_file = get_attr h enclosing_function ''enclosingFile'',
                                       ep_range = read_range h (getp h enclosing_function ''range'')\<rparr>,
                            callee = called\<rparr>)
            else Inr \<lparr>caller = \<lparr>ep_file = get_attr h call ''enclosingFile'',
                                 ep_range = Some (VNull, VNull)\<rparr>,
                      callee = called\<rparr>))"

definition handle_function_argument :: "heap \<Rightarrow> val \<Rightarrow> val \<Rightarrow> entry list \<Rightarrow> error + entry list" where
  "handle_function_argument h call func functions_called =
     (case native_entry h call func of
        Inl e \<Rightarrow> Inl e
      | Inr new \<Rightarrow> add_entry new functions_called)"

text \<open>
  \<^verbatim>\<open>
  if (callee.type == 'NativeVertex') {
      let args = caller.call.arguments;
      for (let i = 0; i < args.length; i++) {
          if (args[i].type == 'FunctionExpression')
              handle_function_argument(caller, caller.call.arguments[i]);
      }
  }
  \<close>
\<close>

definition native_arg :: "heap \<Rightarrow> val \<Rightarrow> val \<Rightarrow> entry list \<Rightarrow> error + entry list" where
  "native_arg h call arg functions_called =
     (if nullish arg then Inl TypeError
      else if node_type h arg = VStr ''FunctionExpression''
      then handle_function_argument h call arg functions_called
      else Inr functions_called)"

definition native_edge :: "heap \<Rightarrow> vertex \<times> vertex \<Rightarrow> entry list \<Rightarrow> error + entry list" where
  "native_edge h e functions_called =
     (let (caller_v, callee_v) = e in
      if is_native callee_v then
        (let call = vertex_call caller_v in
         if nullish call \<or> nullish (getp h call ''arguments'') then Inl TypeError
         else case elements h (getp h call ''arguments'') of
                None \<Rightarrow> Inr functions_called
              | Some args \<Rightarrow> iter_edges (native_arg h call) args functions_called)
      else Inr functions_called)"

definition retrieveAllCalledFunctionsNative :: "heap \<Rightarrow> (vertex \<times> vertex) list \<Rightarrow> error + entry list" where
  "retrieveAllCalledFunctionsNative h edges = iter_edges (native_edge h) edges []"

section \<open>Configuration: \<open>build\<close> and \<open>setFiles\<close>\<close>




















section \<open>Example programs\<close>

text \<open>
  The parser is an external module; it returns a tree of plain objects and arrays with
  primitive leaves. \<open>load\<close> allocates such a tree in the store, an object before its
  children, and returns the reference to the root.
\<close>

datatype json =
    JNull | JBool bool | JNum int | JStr string | JArr "json list" | JObj "(string \<times> json) list"

fun load :: "json \<Rightarrow> heap \<Rightarrow> val \<times> heap"
  and load_list :: "json list \<Rightarrow> heap \<Rightarrow> val list \<times> heap"
  and load_props :: "(string \<times> json) list \<Rightarrow> heap \<Rightarrow> (string \<times> val) list \<times> heap" where
  "load JNull h = (VNull, h)"
| "load (JBool b) h = (VBool b, h)"
| "load (JNum n) h = (VNum n, h)"
| "load (JStr s) h = (VStr s, h)"
| "load (JArr xs) h =
     (let a = length h; (vs, h') = load_list xs (h @ [Arr []]) in (VRef a, h'[a := Arr vs]))"
| "load (JObj ps) h =
     (let a = length h; (qs, h') = load_props ps (h @ [Obj []]) in (VRef a, h'[a := Obj qs]))"
| "load_list [] h = ([], h)"
| "load_list (x # xs) h =
     (let (v, h1) = load x h; (vs, h2) = load_list xs h1 in (v # vs, h2))"
| "load_props [] h = ([], h)"
| "load_props ((p, x) # ps) h =
     (let (v, h1) = load x h; (qs, h2) = load_props ps h1 in ((p, v) # qs, h2))"

definition node :: "string \<Rightarrow> (string \<times> json) list \<Rightarrow> json" where
  "node ty ps = JObj ((''type'', JStr ty) # ps)"

definition Identifier :: "string \<Rightarrow> json" where
  "Identifier n = node ''Identifier'' [(''name'', JStr n)]"

definition Literal :: "json \<Rightarrow> json" where
  "Literal v = node ''Literal'' [(''value'', v)]"

definition ExpressionStatement :: "json \<Rightarrow> json" where
  "ExpressionStatement e = node ''ExpressionStatement'' [(''expression'', e)]"

definition CallExpression :: "json \<Rightarrow> json list \<Rightarrow> json" where
  "CallExpression f args = node ''CallExpression'' [(''callee'', f), (''arguments'', JArr args)]"

text \<open>A function expression with a block body, and an arrow function with an expression body.\<close>

definition FunctionExpression :: "json \<Rightarrow> json list \<Rightarrow> int \<Rightarrow> int \<Rightarrow> json" where
  "FunctionExpression ident stmts s e = node ''FunctionExpression''
     [(''id'', ident), (''params'', JArr []),
      (''body'', node ''BlockStatement'' [(''body'', JArr stmts)]),
      (''range'', JArr [JNum s, JNum e])]"

definition ArrowFunctionExpression :: "json \<Rightarrow> int \<Rightarrow> int \<Rightarrow> json" where
  "ArrowFunctionExpression expr s e = node ''ArrowFunctionExpression''
     [(''id'', JNull), (''params'', JArr []), (''body'', expr),
      (''range'', JArr [JNum s, JNum e])]"

text \<open>
  What \<open>astFromFiles\<close> builds for one file: the collection with its empty \<open>attr\<close>,
  and the program with the file name in its \<open>attr\<close>.
\<close>

definition ProgramCollection :: "string \<Rightarrow> json list \<Rightarrow> json" where
  "ProgramCollection fname stmts = node ''ProgramCollection''
     [(''programs'', JArr [node ''Program''
         [(''body'', JArr stmts), (''attr'', JObj [(''filename'', JStr fname)])]]),
      (''attr'', JObj [])]"

definition ast_heap :: "json \<Rightarrow> heap" where
  "ast_heap t = snd (load t [])"

text \<open>\<^verbatim>\<open>setTimeout(function () {}, 10);\<close>\<close>

definition timeout_ast :: json where
  "timeout_ast = ProgramCollection ''a.js''
     [ExpressionStatement (CallExpression (Identifier ''setTimeout'')
        [FunctionExpression JNull [] 11 25, Literal (JNum 10)])]"

text \<open>\<^verbatim>\<open>setTimeout(() => 0, 10);\<close>\<close>

definition arrow_ast :: json where
  "arrow_ast = ProgramCollection ''a.js''
     [ExpressionStatement (CallExpression (Identifier ''setTimeout'')
        [ArrowFunctionExpression (Literal (JNum 0)) 11 18, Literal (JNum 10)])]"

text \<open>\<^verbatim>\<open>exports.x = function () {};\<close>\<close>

definition exports_ast :: json where
  "exports_ast = ProgramCollection ''a.js''
     [ExpressionStatement (node ''AssignmentExpression''
        [(''operator'', JStr ''=''),
         (''left'', node ''MemberExpression''
            [(''object'', Identifier ''exports''), (''property'', Identifier ''x''),
             (''computed'', JBool False)]),
         (''right'', FunctionExpression JNull [] 12 26)])]"

text \<open>\<^verbatim>\<open>({ "a-b": function () {} });\<close>\<close>

definition property_ast :: json where
  "property_ast = ProgramCollection ''a.js''
     [ExpressionStatement (node ''ObjectExpression''
        [(''properties'', JArr [node ''Property''
            [(''key'', Literal (JStr ''a-b'')),
             (''value'', FunctionExpression JNull [] 9 23),
             (''computed'', JBool False), (''method'', JBool False),
             (''shorthand'', JBool False), (''kind'', JStr ''init'')]])])]"

text \<open>\<^verbatim>\<open>Step(function a() {}, function b() {});\<close>\<close>

definition step_ast :: json where
  "step_ast = ProgramCollection ''a.js''
     [ExpressionStatement (CallExpression (Identifier ''Step'')
        [FunctionExpression (Identifier ''a'') [] 5 20,
         FunctionExpression (Identifier ''b'') [] 22 37])]"

text \<open>
  \<^verbatim>\<open>
  var g = function () { (() => 0); (() => 0); };
  (() => 0);
  \<close>
\<close>

definition nested_ast :: json where
  "nested_ast = ProgramCollection ''a.js''
     [node ''VariableDeclaration''
        [(''declarations'', JArr [node ''VariableDeclarator''
            [(''id'', Identifier ''g''),
             (''init'', FunctionExpression JNull
                [ExpressionStatement (ArrowFunctionExpression (Literal (JNum 0)) 23 30),
                 ExpressionStatement (ArrowFunctionExpression (Literal (JNum 0)) 34 41)] 8 45)]])],
      ExpressionStatement (ArrowFunctionExpression (Literal (JNum 0)) 48 55)]"


text \<open>A native table with one entry, named as the natives of the call graph are.\<close>

definition example_nativeFlows :: "(string \<times> string) list" where
  "example_nativeFlows = [(''Math_log'', ''log'')]"





subsection \<open>The examples after the decoration pass\<close>

text \<open>
  The store that \<open>init\<close> leaves for each example: the cells of the tree, then the
  \<open>attr\<close> objects in the order in which the nodes were entered (the two that the tree
  came with first), and the identifiers that \<open>init\<close> allocated.
\<close>

definition timeout_decorated :: heap where
  "timeout_decorated =
  [Obj [(''type'', VStr ''ProgramCollection''), (''programs'', VRef 1),
        (''attr'', VRef 15)],
   Arr [VRef 2],
   Obj [(''type'', VStr ''Program''), (''body'', VRef 3),
        (''attr'', VRef 14)],
   Arr [VRef 4],
   Obj [(''type'', VStr ''ExpressionStatement''), (''expression'', VRef 5),
        (''attr'', VRef 16)],
   Obj [(''type'', VStr ''CallExpression''), (''callee'', VRef 6),
        (''arguments'', VRef 7), (''attr'', VRef 17)],
   Obj [(''type'', VStr ''Identifier''), (''name'', VStr ''setTimeout''),
        (''attr'', VRef 18)],
   Arr [VRef 8, VRef 13],
   Obj [(''type'', VStr ''FunctionExpression''), (''id'', VNull),
        (''params'', VRef 9), (''body'', VRef 10), (''range'', VRef 12),
        (''attr'', VRef 19)],
   Arr [],
   Obj [(''type'', VStr ''BlockStatement''), (''body'', VRef 11),
        (''attr'', VRef 20)],
   Arr [], Arr [VNum 11, VNum 25],
   Obj [(''type'', VStr ''Literal''), (''value'', VNum 10),
        (''attr'', VRef 21)],
   Obj [(''filename'', VStr ''a.js'')], Obj [],
   Obj [(''enclosingFile'', VStr ''a.js'')],
   Obj [(''enclosingFile'', VStr ''a.js'')],
   Obj [(''enclosingFile'', VStr ''a.js'')],
   Obj [(''enclosingFile'', VStr ''a.js''), (''parent'', VRef 7),
        (''childProp'', VStr ''0''), (''anonIndex'', VNum 1)],
   Obj [(''enclosingFunction'', VRef 8),
        (''enclosingFile'', VStr ''a.js'')],
   Obj [(''enclosingFile'', VStr ''a.js'')]]"

definition arrow_decorated :: heap where
  "arrow_decorated =
  [Obj [(''type'', VStr ''ProgramCollection''), (''programs'', VRef 1),
        (''attr'', VRef 14)],
   Arr [VRef 2],
   Obj [(''type'', VStr ''Program''), (''body'', VRef 3),
        (''attr'', VRef 13)],
   Arr [VRef 4],
   Obj [(''type'', VStr ''ExpressionStatement''), (''expression'', VRef 5),
        (''attr'', VRef 15)],
   Obj [(''type'', VStr ''CallExpression''), (''callee'', VRef 6),
        (''arguments'', VRef 7), (''attr'', VRef 16)],
   Obj [(''type'', VStr ''Identifier''), (''name'', VStr ''setTimeout''),
        (''attr'', VRef 17)],
   Arr [VRef 8, VRef 12],
   Obj [(''type'', VStr ''ArrowFunctionExpression''), (''id'', VNull),
        (''params'', VRef 9), (''body'', VRef 10), (''range'', VRef 11),
        (''attr'', VRef 18)],
   Arr [],
   Obj [(''type'', VStr ''Literal''), (''value'', VNum 0),
        (''attr'', VRef 19)],
   Arr [VNum 11, VNum 18],
   Obj [(''type'', VStr ''Literal''), (''value'', VNum 10),
        (''attr'', VRef 20)],
   Obj [(''filename'', VStr ''a.js'')], Obj [],
   Obj [(''enclosingFile'', VStr ''a.js'')],
   Obj [(''enclosingFile'', VStr ''a.js'')],
   Obj [(''enclosingFile'', VStr ''a.js'')],
   Obj [(''enclosingFile'', VStr ''a.js''), (''parent'', VRef 7),
        (''childProp'', VStr ''0''), (''anonIndex'', VNum 1)],
   Obj [(''enclosingFunction'', VRef 8),
        (''enclosingFile'', VStr ''a.js'')],
   Obj [(''enclosingFile'', VStr ''a.js'')]]"

definition exports_decorated :: heap where
  "exports_decorated =
  [Obj [(''type'', VStr ''ProgramCollection''), (''programs'', VRef 1),
        (''attr'', VRef 15)],
   Arr [VRef 2],
   Obj [(''type'', VStr ''Program''), (''body'', VRef 3),
        (''attr'', VRef 14)],
   Arr [VRef 4],
   Obj [(''type'', VStr ''ExpressionStatement''), (''expression'', VRef 5),
        (''attr'', VRef 16)],
   Obj [(''type'', VStr ''AssignmentExpression''),
        (''operator'', VStr ''=''), (''left'', VRef 6), (''right'', VRef 9),
        (''attr'', VRef 17)],
   Obj [(''type'', VStr ''MemberExpression''), (''object'', VRef 7),
        (''property'', VRef 8), (''computed'', VBool False),
        (''attr'', VRef 18)],
   Obj [(''type'', VStr ''Identifier''), (''name'', VStr ''exports''),
        (''attr'', VRef 19)],
   Obj [(''type'', VStr ''Identifier''), (''name'', VStr ''x''),
        (''attr'', VRef 20)],
   Obj [(''type'', VStr ''FunctionExpression''), (''id'', VNull),
        (''params'', VRef 10), (''body'', VRef 11), (''range'', VRef 13),
        (''attr'', VRef 21)],
   Arr [],
   Obj [(''type'', VStr ''BlockStatement''), (''body'', VRef 12),
        (''attr'', VRef 22)],
   Arr [], Arr [VNum 12, VNum 26], Obj [(''filename'', VStr ''a.js'')],
   Obj [], Obj [(''enclosingFile'', VStr ''a.js'')],
   Obj [(''enclosingFile'', VStr ''a.js'')],
   Obj [(''enclosingFile'', VStr ''a.js'')],
   Obj [(''enclosingFile'', VStr ''a.js'')],
   Obj [(''enclosingFile'', VStr ''a.js'')],
   Obj [(''enclosingFile'', VStr ''a.js''), (''parent'', VRef 5),
        (''childProp'', VStr ''right''), (''anonIndex'', VNum 1)],
   Obj [(''enclosingFunction'', VRef 9),
        (''enclosingFile'', VStr ''a.js'')]]"

definition property_decorated :: heap where
  "property_decorated =
  [Obj [(''type'', VStr ''ProgramCollection''), (''programs'', VRef 1),
        (''attr'', VRef 15)],
   Arr [VRef 2],
   Obj [(''type'', VStr ''Program''), (''body'', VRef 3),
        (''attr'', VRef 14)],
   Arr [VRef 4],
   Obj [(''type'', VStr ''ExpressionStatement''), (''expression'', VRef 5),
        (''attr'', VRef 16)],
   Obj [(''type'', VStr ''ObjectExpression''), (''properties'', VRef 6),
        (''attr'', VRef 17)],
   Arr [VRef 7],
   Obj [(''type'', VStr ''Property''), (''key'', VRef 8),
        (''value'', VRef 9), (''computed'', VBool False),
        (''method'', VBool False), (''shorthand'', VBool False),
        (''kind'', VStr ''init''), (''attr'', VRef 18)],
   Obj [(''type'', VStr ''Literal''), (''value'', VStr ''a-b''),
        (''attr'', VRef 19)],
   Obj [(''type'', VStr ''FunctionExpression''), (''id'', VRef 21),
        (''params'', VRef 10), (''body'', VRef 11), (''range'', VRef 13),
        (''attr'', VRef 20)],
   Arr [],
   Obj [(''type'', VStr ''BlockStatement''), (''body'', VRef 12),
        (''attr'', VRef 23)],
   Arr [], Arr [VNum 9, VNum 23], Obj [(''filename'', VStr ''a.js'')],
   Obj [], Obj [(''enclosingFile'', VStr ''a.js'')],
   Obj [(''enclosingFile'', VStr ''a.js'')],
   Obj [(''enclosingFile'', VStr ''a.js'')],
   Obj [(''enclosingFile'', VStr ''a.js'')],
   Obj [(''enclosingFile'', VStr ''a.js''), (''parent'', VRef 7),
        (''childProp'', VStr ''value'')],
   Obj [(''type'', VStr ''Identifier''), (''name'', VStr ''a-b''),
        (''range'', VUndef), (''loc'', VUndef), (''attr'', VRef 22)],
   Obj [(''enclosingFunction'', VRef 9),
        (''enclosingFile'', VStr ''a.js'')],
   Obj [(''enclosingFunction'', VRef 9),
        (''enclosingFile'', VStr ''a.js'')]]"

definition step_decorated :: heap where
  "step_decorated =
  [Obj [(''type'', VStr ''ProgramCollection''), (''programs'', VRef 1),
        (''attr'', VRef 21)],
   Arr [VRef 2],
   Obj [(''type'', VStr ''Program''), (''body'', VRef 3),
        (''attr'', VRef 20)],
   Arr [VRef 4],
   Obj [(''type'', VStr ''ExpressionStatement''), (''expression'', VRef 5),
        (''attr'', VRef 22)],
   Obj [(''type'', VStr ''CallExpression''), (''callee'', VRef 6),
        (''arguments'', VRef 7), (''attr'', VRef 23)],
   Obj [(''type'', VStr ''Identifier''), (''name'', VStr ''Step''),
        (''attr'', VRef 24)],
   Arr [VRef 8, VRef 14],
   Obj [(''type'', VStr ''FunctionExpression''), (''id'', VRef 9),
        (''params'', VRef 10), (''body'', VRef 11), (''range'', VRef 13),
        (''attr'', VRef 25)],
   Obj [(''type'', VStr ''Identifier''), (''name'', VStr ''a''),
        (''attr'', VRef 26)],
   Arr [],
   Obj [(''type'', VStr ''BlockStatement''), (''body'', VRef 12),
        (''attr'', VRef 27)],
   Arr [], Arr [VNum 5, VNum 20],
   Obj [(''type'', VStr ''FunctionExpression''), (''id'', VRef 15),
        (''params'', VRef 16), (''body'', VRef 17), (''range'', VRef 19),
        (''attr'', VRef 28)],
   Obj [(''type'', VStr ''Identifier''), (''name'', VStr ''b''),
        (''attr'', VRef 29)],
   Arr [],
   Obj [(''type'', VStr ''BlockStatement''), (''body'', VRef 18),
        (''attr'', VRef 30)],
   Arr [], Arr [VNum 22, VNum 37], Obj [(''filename'', VStr ''a.js'')],
   Obj [], Obj [(''enclosingFile'', VStr ''a.js'')],
   Obj [(''enclosingFile'', VStr ''a.js'')],
   Obj [(''enclosingFile'', VStr ''a.js'')],
   Obj [(''enclosingFile'', VStr ''a.js''), (''parent'', VRef 7),
        (''childProp'', VStr ''0'')],
   Obj [(''enclosingFunction'', VRef 8),
        (''enclosingFile'', VStr ''a.js'')],
   Obj [(''enclosingFunction'', VRef 8),
        (''enclosingFile'', VStr ''a.js'')],
   Obj [(''enclosingFile'', VStr ''a.js''), (''parent'', VRef 7),
        (''childProp'', VStr ''1'')],
   Obj [(''enclosingFunction'', VRef 14),
        (''enclosingFile'', VStr ''a.js'')],
   Obj [(''enclosingFunction'', VRef 14),
        (''enclosingFile'', VStr ''a.js'')]]"

definition nested_decorated :: heap where
  "nested_decorated =
  [Obj [(''type'', VStr ''ProgramCollection''), (''programs'', VRef 1),
        (''attr'', VRef 29)],
   Arr [VRef 2],
   Obj [(''type'', VStr ''Program''), (''body'', VRef 3),
        (''attr'', VRef 28)],
   Arr [VRef 4, VRef 23],
   Obj [(''type'', VStr ''VariableDeclaration''),
        (''declarations'', VRef 5), (''attr'', VRef 30)],
   Arr [VRef 6],
   Obj [(''type'', VStr ''VariableDeclarator''), (''id'', VRef 7),
        (''init'', VRef 8), (''attr'', VRef 31)],
   Obj [(''type'', VStr ''Identifier''), (''name'', VStr ''g''),
        (''attr'', VRef 32)],
   Obj [(''type'', VStr ''FunctionExpression''), (''id'', VNull),
        (''params'', VRef 9), (''body'', VRef 10), (''range'', VRef 22),
        (''attr'', VRef 33)],
   Arr [],
   Obj [(''type'', VStr ''BlockStatement''), (''body'', VRef 11),
        (''attr'', VRef 34)],
   Arr [VRef 12, VRef 17],
   Obj [(''type'', VStr ''ExpressionStatement''), (''expression'', VRef 13),
        (''attr'', VRef 35)],
   Obj [(''type'', VStr ''ArrowFunctionExpression''), (''id'', VNull),
        (''params'', VRef 14), (''body'', VRef 15), (''range'', VRef 16),
        (''attr'', VRef 36)],
   Arr [],
   Obj [(''type'', VStr ''Literal''), (''value'', VNum 0),
        (''attr'', VRef 37)],
   Arr [VNum 23, VNum 30],
   Obj [(''type'', VStr ''ExpressionStatement''), (''expression'', VRef 18),
        (''attr'', VRef 38)],
   Obj [(''type'', VStr ''ArrowFunctionExpression''), (''id'', VNull),
        (''params'', VRef 19), (''body'', VRef 20), (''range'', VRef 21),
        (''attr'', VRef 39)],
   Arr [],
   Obj [(''type'', VStr ''Literal''), (''value'', VNum 0),
        (''attr'', VRef 40)],
   Arr [VNum 34, VNum 41], Arr [VNum 8, VNum 45],
   Obj [(''type'', VStr ''ExpressionStatement''), (''expression'', VRef 24),
        (''attr'', VRef 41)],
   Obj [(''type'', VStr ''ArrowFunctionExpression''), (''id'', VNull),
        (''params'', VRef 25), (''body'', VRef 26), (''range'', VRef 27),
        (''attr'', VRef 42)],
   Arr [],
   Obj [(''type'', VStr ''Literal''), (''value'', VNum 0),
        (''attr'', VRef 43)],
   Arr [VNum 48, VNum 55], Obj [(''filename'', VStr ''a.js'')], Obj [],
   Obj [(''enclosingFile'', VStr ''a.js'')],
   Obj [(''enclosingFile'', VStr ''a.js'')],
   Obj [(''enclosingFile'', VStr ''a.js'')],
   Obj [(''enclosingFile'', VStr ''a.js''), (''parent'', VRef 6),
        (''childProp'', VStr ''init'')],
   Obj [(''enclosingFunction'', VRef 8),
        (''enclosingFile'', VStr ''a.js'')],
   Obj [(''enclosingFunction'', VRef 8),
        (''enclosingFile'', VStr ''a.js'')],
   Obj [(''enclosingFunction'', VRef 8), (''enclosingFile'', VStr ''a.js''),
        (''parent'', VRef 12), (''childProp'', VStr ''expression''),
        (''anonIndex'', VNum 1)],
   Obj [(''enclosingFunction'', VRef 13),
        (''enclosingFile'', VStr ''a.js'')],
   Obj [(''enclosingFunction'', VRef 8),
        (''enclosingFile'', VStr ''a.js'')],
   Obj [(''enclosingFunction'', VRef 8), (''enclosingFile'', VStr ''a.js''),
        (''parent'', VRef 17), (''childProp'', VStr ''expression''),
        (''anonIndex'', VNum 2)],
   Obj [(''enclosingFunction'', VRef 18),
        (''enclosingFile'', VStr ''a.js'')],
   Obj [(''enclosingFile'', VStr ''a.js'')],
   Obj [(''enclosingFile'', VStr ''a.js''), (''parent'', VRef 23),
        (''childProp'', VStr ''expression''), (''anonIndex'', VNum 1)],
   Obj [(''enclosingFunction'', VRef 24),
        (''enclosingFile'', VStr ''a.js'')]]"

section \<open>Observers and the shape of the tree\<close>




section \<open>Running the examples\<close>

text \<open>Rules for computing with the definitions on the examples.\<close>

lemma doVisit_numeral:
  "doVisit (numeral k) visitor nd parent childProp w =
     (if \<not> is_object nd then Inr w
      else if truthy (getp (fst w) nd ''type'') then
        (case visitor (doVisit (pred_numeral k) visitor) nd parent childProp w of
           Inl e \<Rightarrow> Inl e
         | Inr (res, w') \<Rightarrow>
             if res = VBool False then Inr w'
             else forIn (doVisit (pred_numeral k) visitor) nd (own_keys (fst w') nd) w')
      else forIn (doVisit (pred_numeral k) visitor) nd (own_keys (fst w) nd) w)"
  by (simp add: numeral_eq_Suc)

lemmas eval_congs = prod.case_cong_weak sum.case_cong_weak option.case_cong_weak list.case_cong_weak
  val.case_cong_weak cell.case_cong_weak let_weak_cong
lemma VStr_cong: "VStr s = VStr s" by simp
lemma prop_cong: "v = w \<Longrightarrow> ((k::string), (v::val)) = (k, w)" by simp
lemma jprop_cong: "v = w \<Longrightarrow> ((k::string), (v::json)) = (k, w)" by simp
lemma JStr_cong: "JStr s = JStr s" by simp

lemmas ast_defs = ast_heap_def node_def Identifier_def Literal_def ExpressionStatement_def
  CallExpression_def FunctionExpression_def ArrowFunctionExpression_def ProgramCollection_def

lemmas init_defs = init_def visit_def init_visitor_def enter_node_def ensure_attr_def set_attr_def
  get_attr_def node_type_def getp_def cell_at_def name_property_value_def register_function_def
  visit_function_parts_def name_method_definition_def register_call_def init_state0_def
  is_function_type_def willBeAnonymous_def hasParentName_def getNextAnonIndex_def counter_key_def
  counter_of_def log_line_def string_of_nat.simps digit_char_def magic_def Let_def doVisit_numeral

lemma timeout_init:
  "\<exists>s. init 20 (VRef 0) (ast_heap timeout_ast) = Inr (timeout_decorated, s) \<and>
     functions_list s = [VRef 8] \<and> calls s = [VRef 5] \<and> console s = []"
  by (simp add: ast_defs timeout_ast_def init_defs timeout_decorated_def
        cong: eval_congs JStr_cong jprop_cong VStr_cong prop_cong)

lemma arrow_init:
  "\<exists>s. init 20 (VRef 0) (ast_heap arrow_ast) = Inr (arrow_decorated, s) \<and>
     functions_list s = [VRef 8] \<and> calls s = [VRef 5] \<and> console s = []"
  by (simp add: ast_defs arrow_ast_def init_defs arrow_decorated_def
        cong: eval_congs JStr_cong jprop_cong VStr_cong prop_cong)

lemma exports_init:
  "\<exists>s. init 20 (VRef 0) (ast_heap exports_ast) = Inr (exports_decorated, s) \<and>
     functions_list s = [VRef 9] \<and> calls s = [] \<and> console s = []"
  by (simp add: ast_defs exports_ast_def init_defs exports_decorated_def
        cong: eval_congs JStr_cong jprop_cong VStr_cong prop_cong)

lemma property_init:
  "\<exists>s. init 20 (VRef 0) (ast_heap property_ast) = Inr (property_decorated, s) \<and>
     functions_list s = [VRef 9] \<and> calls s = [] \<and> console s = []"
  by (simp add: ast_defs property_ast_def init_defs property_decorated_def
        cong: eval_congs JStr_cong jprop_cong VStr_cong prop_cong)

lemma step_init:
  "\<exists>s. init 20 (VRef 0) (ast_heap step_ast) = Inr (step_decorated, s) \<and>
     functions_list s = [VRef 8, VRef 14] \<and> calls s = [VRef 5] \<and> console s = []"
  by (simp add: ast_defs step_ast_def init_defs step_decorated_def
        cong: eval_congs JStr_cong jprop_cong VStr_cong prop_cong)

lemma nested_init:
  "\<exists>s. init 20 (VRef 0) (ast_heap nested_ast) = Inr (nested_decorated, s) \<and>
     functions_list s = [VRef 8, VRef 13, VRef 18, VRef 24] \<and> calls s = [] \<and> console s = []"
  by (simp add: ast_defs nested_ast_def init_defs nested_decorated_def
        cong: eval_congs JStr_cong jprop_cong VStr_cong prop_cong)

section \<open>Native flow edges\<close>

text \<open>
  C6, as the code has it: for every entry (name, target) of the native-flows table, in
  the order of the table, \<open>addNativeFlowEdges\<close> adds exactly one edge to the flow graph,
  from the Native vertex of the entry's name to the Prop vertex of the entry's target;
  nothing else is added.
\<close>

theorem addNativeFlowEdges_edges:
  "addNativeFlowEdges nativeFlows flow_graph =
     flow_graph @ map (\<lambda>(native, target). (NativeVertex native, PropVertex target)) nativeFlows"
  by (induction nativeFlows arbitrary: flow_graph) (auto simp: addEdge_def)

theorem addNativeFlowEdges_edges_witness:
  "addNativeFlowEdges example_nativeFlows [] = [(NativeVertex ''Math_log'', PropVertex ''log'')]"
  using addNativeFlowEdges_edges [of example_nativeFlows "[]"]
  by (simp add: example_nativeFlows_def)

text \<open>
  The Prop vertex is that of the target, not of the native's own name: for the entry
  \<open>Math_log \<mapsto> log\<close> no edge reaches the Prop vertex \<open>Math_log\<close>.
\<close>

theorem addNativeFlowEdges_same_name_counterexample:
  "addNativeFlowEdges example_nativeFlows [] = [(NativeVertex ''Math_log'', PropVertex ''log'')] \<and>
   (NativeVertex ''Math_log'', PropVertex ''Math_log'') \<notin> set (addNativeFlowEdges example_nativeFlows [])"
  by (simp add: example_nativeFlows_def addEdge_def)

section \<open>Configuration failures\<close>







section \<open>Termination of the traversal\<close>








end
